theory Spec2Isabelle
  imports Complex_Main "HOL-Library.Word"
begin

unbundle bit_operations_syntax

section \<open>Bytes, the crypto library and the stream primitives\<close>

type_synonym byte = "8 word"
type_synonym bytes = "byte list"

text \<open>
  The cipher engine (\<^verbatim>\<open>crypto.ts\<close>) calls Node's \<^verbatim>\<open>crypto\<close> module. The module is
  not part of the repository, so its functions are parameters of the embedding:
  \<^item> \<open>pbkdf2Sync pw salt\<close> is \<^verbatim>\<open>crypto.pbkdf2Sync(pw, salt, 100000, 32, 'sha256')\<close>;
  \<^item> \<open>keystream key iv i\<close> is byte \<open>i\<close> of the counter-mode key stream of
    \<^verbatim>\<open>aes-256-gcm\<close> under \<open>key\<close> and \<open>iv\<close> (GCM encrypts and decrypts by XOR with
    this stream);
  \<^item> \<open>gcmTag key iv c\<close> is the authentication tag GCM computes over the ciphertext \<open>c\<close>
    (\<^verbatim>\<open>cipher.getAuthTag()\<close>; \<^verbatim>\<open>decipher.final()\<close> recomputes and compares it);
  \<^item> \<open>sha256hex s\<close> is \<^verbatim>\<open>crypto.createHash('sha256').update(s).digest('hex')\<close>.
\<close>

record crypto_lib =
  pbkdf2Sync :: "string \<Rightarrow> bytes \<Rightarrow> bytes"
  keystream :: "bytes \<Rightarrow> bytes \<Rightarrow> nat \<Rightarrow> byte"
  gcmTag :: "bytes \<Rightarrow> bytes \<Rightarrow> bytes \<Rightarrow> bytes"
  sha256hex :: "string \<Rightarrow> string"

text \<open>
  \<^verbatim>\<open>crypto.randomBytes(n)\<close> takes the next \<open>n\<close> bytes of the system's random stream
  \<open>rnd\<close>; \<open>off\<close> is the number of bytes already taken.
\<close>

definition randomBytes :: "(nat \<Rightarrow> byte) \<Rightarrow> nat \<Rightarrow> nat \<Rightarrow> bytes" where
  "randomBytes rnd off n = map rnd [off ..< off + n]"

text \<open>
  A cipher or decipher object created by \<^verbatim>\<open>createCipheriv\<close>/\<^verbatim>\<open>createDecipheriv\<close> starts
  its key stream at position 0; piping \<open>data\<close> through it XORs byte \<open>i\<close> of the data
  with byte \<open>i\<close> of the key stream.
\<close>

definition cipher_update :: "crypto_lib \<Rightarrow> bytes \<Rightarrow> bytes \<Rightarrow> bytes \<Rightarrow> bytes" where
  "cipher_update lib key iv data =
     map (\<lambda>i. (data ! i) XOR keystream lib key iv i) [0 ..< length data]"

text \<open>
  An \<^verbatim>\<open>fs.WriteStream\<close>: the bytes that reach the file and whether the stream has been
  ended. \<^verbatim>\<open>stream.pipeline\<close> ends its destination when the source is exhausted, and
  \<^verbatim>\<open>write\<close> on an ended stream writes nothing (Node reports
  \<^verbatim>\<open>ERR_STREAM_WRITE_AFTER_END\<close> on the stream, not to the caller of \<^verbatim>\<open>write\<close>).
\<close>

record WriteStream =
  written :: bytes
  ended :: bool

definition createWriteStream :: WriteStream where
  "createWriteStream = \<lparr>written = [], ended = False\<rparr>"

definition stream_write :: "WriteStream \<Rightarrow> bytes \<Rightarrow> WriteStream" where
  "stream_write ws b = (if ended ws then ws else ws\<lparr>written := written ws @ b\<rparr>)"

definition pipeline :: "bytes \<Rightarrow> WriteStream \<Rightarrow> WriteStream" where
  "pipeline transformed ws =
     (if ended ws then ws else ws\<lparr>written := written ws @ transformed, ended := True\<rparr>)"

text \<open>
  \<^verbatim>\<open>fs.readSync(fd, buffer, 0, len, pos)\<close> into a zero-filled \<^verbatim>\<open>Buffer.alloc(len)\<close>: the
  bytes of the file from \<open>pos\<close> on, at most \<open>len\<close> of them; the rest of the buffer
  stays zero.
\<close>

definition readSync :: "bytes \<Rightarrow> nat \<Rightarrow> nat \<Rightarrow> bytes" where
  "readSync file len pos =
     (let got = take len (drop pos file) in got @ replicate (len - length got) 0)"

datatype error =
    ERR_OUT_OF_RANGE
  | AuthenticationFailed
  | ENOENT
  | EACCES
  | TypeError
  | UnmodelledAlgorithm

section \<open>encryptFile and decryptFile\<close>

text \<open>
  \<open>encryptFile lib rnd data password\<close> is the content of \<^verbatim>\<open>outputPath\<close> after
  \<^verbatim>\<open>encryptFile(inputPath, outputPath, password)\<close> has resolved, where \<open>data\<close> is the
  content of \<^verbatim>\<open>inputPath\<close>. The statements follow the source line by line: salt, iv,
  key, cipher, the two header writes, the pipeline, and the write of the tag after the
  pipeline has finished.
\<close>

definition encryptFile :: "crypto_lib \<Rightarrow> (nat \<Rightarrow> byte) \<Rightarrow> bytes \<Rightarrow> string \<Rightarrow> bytes" where
  "encryptFile lib rnd data password =
     (let salt = randomBytes rnd 0 32;
          iv = randomBytes rnd 32 16;
          key = pbkdf2Sync lib password salt;
          output0 = createWriteStream;
          output1 = stream_write output0 salt;
          output2 = stream_write output1 iv;
          ciphertext = cipher_update lib key iv data;
          output3 = pipeline ciphertext output2;
          authTag = gcmTag lib key iv ciphertext;
          output4 = stream_write output3 authTag
      in written output4)"

text \<open>
  \<open>decryptFile lib file password\<close>: \<open>file\<close> is the content of \<^verbatim>\<open>inputPath\<close>; the result
  is how the promise settles, with the bytes that were written to \<^verbatim>\<open>outputPath\<close>.
  \<^item> \<^verbatim>\<open>fs.readSync\<close> accepts the position \<open>-1\<close> (the current position, here 0) and
    rejects smaller ones with \<^verbatim>\<open>ERR_OUT_OF_RANGE\<close>.
  \<^item> \<^verbatim>\<open>fs.createReadStream(path, {start: 48, end: size - 17})\<close> throws
    \<^verbatim>\<open>ERR_OUT_OF_RANGE\<close> when \<open>end\<close> is negative or \<open>start > end\<close>; otherwise it
    yields the bytes \<open>48 .. end\<close>, both inclusive.
  \<^item> The decipher passes plaintext on as it goes; the tag is only compared in
    \<^verbatim>\<open>final()\<close>, after all plaintext has been handed to the output stream.
\<close>

definition decryptFile :: "crypto_lib \<Rightarrow> bytes \<Rightarrow> string \<Rightarrow> (error + unit) \<times> bytes" where
  "decryptFile lib file password =
     (let salt = readSync file 32 0;
          iv = readSync file 16 32;
          key = pbkdf2Sync lib password salt;
          size = int (length file)
      in if size - 16 < - 1 then (Inl ERR_OUT_OF_RANGE, [])
         else
           let authTag = readSync file 16 (if size - 16 = - 1 then 0 else nat (size - 16))
           in if size - 17 < 0 \<or> 48 > size - 17 then (Inl ERR_OUT_OF_RANGE, [])
              else
                let ciphertext = take (nat (size - 17) + 1 - 48) (drop 48 file);
                    plaintext = cipher_update lib key iv ciphertext
                in if gcmTag lib key iv ciphertext = authTag
                   then (Inr (), plaintext)
                   else (Inl AuthenticationFailed, plaintext))"

text \<open>
  The envelope layout as the specification words it: a 64-byte header of version, salt,
  base nonce, chunk size and total plaintext length, then (ciphertext, tag) pairs with
  16-byte tags, and nothing after the last pair.
\<close>

definition envelope_layout :: "bytes \<Rightarrow> bool" where
  "envelope_layout file \<longleftrightarrow>
     (\<exists>version salt nonce chunkSize total chunks.
        length version = 4 \<and> length salt = 32 \<and> length nonce = 16 \<and>
        length chunkSize = 4 \<and> length total = 8 \<and>
        list_all (\<lambda>(c, t). length t = 16) chunks \<and>
        file = version @ salt @ nonce @ chunkSize @ total @
               concat (map (\<lambda>(c, t). c @ t) chunks))"

text \<open>A stand-in crypto library and random stream for closed examples.\<close>

definition sample_lib :: crypto_lib where
  "sample_lib = \<lparr>pbkdf2Sync = (\<lambda>pw salt. take 32 (map (of_nat \<circ> of_char) pw @ salt)),
                 keystream = (\<lambda>key iv i. of_nat (length key + i)),
                 gcmTag = (\<lambda>key iv c. take 16 (c @ key @ replicate 16 0)),
                 sha256hex = (\<lambda>s. s)\<rparr>"

definition sample_rnd :: "nat \<Rightarrow> byte" where
  "sample_rnd i = of_nat i"

section \<open>The file system seen by the synchronous calls\<close>

text \<open>
  A path names a regular file with its content and whether the process may read it.
  \<^verbatim>\<open>fs.existsSync\<close> and \<^verbatim>\<open>fs.statSync(p).size\<close> need no read permission;
  \<^verbatim>\<open>fs.openSync(p, 'r')\<close> does.
\<close>

record file_node =
  content :: bytes
  readable :: bool

type_synonym filesystem = "string \<rightharpoonup> file_node"

definition existsSync :: "filesystem \<Rightarrow> string \<Rightarrow> bool" where
  "existsSync fs p \<longleftrightarrow> fs p \<noteq> None"

definition statSync_size :: "filesystem \<Rightarrow> string \<Rightarrow> error + nat" where
  "statSync_size fs p = (case fs p of None \<Rightarrow> Inl ENOENT | Some f \<Rightarrow> Inr (length (content f)))"

definition openSync :: "filesystem \<Rightarrow> string \<Rightarrow> error + bytes" where
  "openSync fs p =
     (case fs p of
        None \<Rightarrow> Inl ENOENT
      | Some f \<Rightarrow> if readable f then Inr (content f) else Inl EACCES)"

text \<open>
  The body of the \<^verbatim>\<open>try\<close> block of \<^verbatim>\<open>isFileEncrypted\<close>: open, read 48 bytes into a
  buffer that is not looked at again, close, stat, compare the size with 64.
\<close>

definition isFileEncrypted_try :: "filesystem \<Rightarrow> string \<Rightarrow> error + bool" where
  "isFileEncrypted_try fs filePath =
     (case openSync fs filePath of
        Inl e \<Rightarrow> Inl e
      | Inr fd \<Rightarrow>
          let buffer = readSync fd 48 0
          in (case statSync_size fs filePath of
                Inl e \<Rightarrow> Inl e
              | Inr fileSize \<Rightarrow> Inr (fileSize > 64)))"

definition isFileEncrypted :: "filesystem \<Rightarrow> string \<Rightarrow> bool" where
  "isFileEncrypted fs filePath =
     (case isFileEncrypted_try fs filePath of Inl e \<Rightarrow> False | Inr b \<Rightarrow> b)"

section \<open>Checkpoints and resumption\<close>

datatype operation = Encrypt | Decrypt

record OperationCheckpoint =
  id :: string
  operation :: operation
  inputPath :: string
  outputPath :: string
  password :: string
  progress :: real
  bytesProcessed :: nat
  totalBytes :: nat
  chunkSize :: nat
  timestamp :: int
  algorithm :: string
  salt :: "bytes option"
  iv :: "bytes option"
  tempDataPath :: "string option"

record ResumeInfo =
  canResume :: bool
  checkpoint :: "OperationCheckpoint option"
  reason :: "string option"

text \<open>
  A \<^verbatim>\<open>ResumableOperation\<close> object holds its two directories. \<^verbatim>\<open>JSON.parse\<close> of a
  checkpoint document (with the \<^verbatim>\<open>Buffer.from\<close> conversions that follow it) is the
  parameter \<open>parse\<close>; \<open>None\<close> is a document that does not parse.
\<close>

record ResumableOperation =
  checkpointsDir :: string
  tempDir :: string

definition checkpointInterval :: nat where
  "checkpointInterval = 5 * 1024 * 1024"

definition path_join :: "string \<Rightarrow> string \<Rightarrow> string" where
  "path_join dir name = dir @ ''/'' @ name"

definition loadCheckpoint ::
  "ResumableOperation \<Rightarrow> (bytes \<Rightarrow> OperationCheckpoint option) \<Rightarrow> filesystem \<Rightarrow> string
     \<Rightarrow> OperationCheckpoint option" where
  "loadCheckpoint ro parse fs operationId =
     (let checkpointPath = path_join (checkpointsDir ro) (operationId @ ''.json'')
      in if \<not> existsSync fs checkpointPath then None
         else (case openSync fs checkpointPath of
                 Inl e \<Rightarrow> None
               | Inr data \<Rightarrow> parse data))"

definition encryptPassword :: "crypto_lib \<Rightarrow> string \<Rightarrow> string" where
  "encryptPassword lib pw = sha256hex lib pw"

definition verifyPassword :: "crypto_lib \<Rightarrow> string \<Rightarrow> string \<Rightarrow> bool" where
  "verifyPassword lib pw storedHash \<longleftrightarrow> sha256hex lib pw = storedHash"

definition cannot :: "string \<Rightarrow> ResumeInfo" where
  "cannot r = \<lparr>canResume = False, checkpoint = None, reason = Some r\<rparr>"

text \<open>
  \<^verbatim>\<open>checkpoint.tempDataPath && ...\<close>: a path that is present and not the empty string.
\<close>

definition truthy :: "string option \<Rightarrow> bool" where
  "truthy p \<longleftrightarrow> (case p of None \<Rightarrow> False | Some s \<Rightarrow> s \<noteq> [])"

definition daysSinceCheckpoint :: "int \<Rightarrow> OperationCheckpoint \<Rightarrow> real" where
  "daysSinceCheckpoint now cp = real_of_int (now - timestamp cp) / (1000 * 60 * 60 * 24)"

text \<open>
  \<open>canResumeOperation\<close>, with \<open>now\<close> the value of \<^verbatim>\<open>Date.now()\<close>. The checks are in
  the order of the source.
\<close>

definition canResumeOperation ::
  "crypto_lib \<Rightarrow> ResumableOperation \<Rightarrow> (bytes \<Rightarrow> OperationCheckpoint option) \<Rightarrow> filesystem
     \<Rightarrow> int \<Rightarrow> string \<Rightarrow> string \<Rightarrow> ResumeInfo" where
  "canResumeOperation lib ro parse fs now operationId pw =
     (case loadCheckpoint ro parse fs operationId of
        None \<Rightarrow> cannot ''Checkpoint not found''
      | Some cp \<Rightarrow>
          if \<not> verifyPassword lib pw (password cp) then cannot ''Invalid password''
          else if \<not> existsSync fs (inputPath cp) then cannot ''Input file no longer exists''
          else if statSync_size fs (inputPath cp) \<noteq> Inr (totalBytes cp)
            then cannot ''Input file has been modified''
          else if truthy (tempDataPath cp) \<and> \<not> existsSync fs (the (tempDataPath cp))
            then cannot ''Temporary data lost''
          else if daysSinceCheckpoint now cp > 7
            then cannot ''Checkpoint is too old (>7 days)''
          else \<lparr>canResume = True, checkpoint = Some cp, reason = None\<rparr>)"

text \<open>
  The order of checks as the specification words it: checkpoint exists, password
  verifier, input exists, input size, age at most 7 days, and last the temp snapshot
  when \<open>bytesProcessed > 0\<close>. Each failing check answers with the reason string the
  code has for that condition.
\<close>

definition canResume_spec ::
  "crypto_lib \<Rightarrow> ResumableOperation \<Rightarrow> (bytes \<Rightarrow> OperationCheckpoint option) \<Rightarrow> filesystem
     \<Rightarrow> int \<Rightarrow> string \<Rightarrow> string \<Rightarrow> ResumeInfo" where
  "canResume_spec lib ro parse fs now operationId pw =
     (case loadCheckpoint ro parse fs operationId of
        None \<Rightarrow> cannot ''Checkpoint not found''
      | Some cp \<Rightarrow>
          if \<not> verifyPassword lib pw (password cp) then cannot ''Invalid password''
          else if \<not> existsSync fs (inputPath cp) then cannot ''Input file no longer exists''
          else if statSync_size fs (inputPath cp) \<noteq> Inr (totalBytes cp)
            then cannot ''Input file has been modified''
          else if daysSinceCheckpoint now cp > 7
            then cannot ''Checkpoint is too old (>7 days)''
          else if bytesProcessed cp > 0 \<and>
                  (case tempDataPath cp of None \<Rightarrow> True | Some t \<Rightarrow> \<not> existsSync fs t)
            then cannot ''Temporary data lost''
          else \<lparr>canResume = True, checkpoint = Some cp, reason = None\<rparr>)"

text \<open>
  \<open>resumeEncryption lib cp pw input existing\<close>: \<open>input\<close> is the content of
  \<^verbatim>\<open>checkpoint.inputPath\<close>, \<open>existing\<close> the content of \<^verbatim>\<open>checkpoint.outputPath\<close> when
  the write stream opens it in append mode; the result is the content of the output
  file when the promise resolves. The read stream starts at \<open>bytesProcessed\<close>; the
  cipher is a new one, made from the stored salt and iv; on \<^verbatim>\<open>finish\<close> the tag is
  appended with \<^verbatim>\<open>fs.appendFileSync\<close>. The checkpoints saved on the way go to the
  checkpoint and temp directories and leave the output file alone. The embedding covers
  the algorithm \<^verbatim>\<open>aes-256-gcm\<close>, the only one the crypto parameters describe; a missing
  salt or iv makes \<^verbatim>\<open>pbkdf2Sync\<close> or \<^verbatim>\<open>createCipheriv\<close> throw a \<^verbatim>\<open>TypeError\<close>.
\<close>

definition resumeEncryption ::
  "crypto_lib \<Rightarrow> OperationCheckpoint \<Rightarrow> string \<Rightarrow> bytes \<Rightarrow> bytes \<Rightarrow> error + bytes" where
  "resumeEncryption lib cp pw input existing =
     (case (salt cp, iv cp) of
        (Some s, Some v) \<Rightarrow>
          if algorithm cp \<noteq> ''aes-256-gcm'' then Inl UnmodelledAlgorithm
          else
            let remaining = drop (bytesProcessed cp) input;
                key = pbkdf2Sync lib pw s;
                ciphertext = cipher_update lib key v remaining;
                finished = existing @ ciphertext;
                authTag = gcmTag lib key v ciphertext
            in Inr (finished @ authTag)
      | _ \<Rightarrow> Inl TypeError)"

text \<open>
  The state an \<open>encryptFile\<close> run is in when it is interrupted after \<open>n\<close> bytes of
  plaintext: the 48 header bytes and the first \<open>n\<close> ciphertext bytes are in the output
  file, and the checkpoint records \<open>n\<close> with the salt and iv of the run.
\<close>

definition interrupted_output :: "crypto_lib \<Rightarrow> (nat \<Rightarrow> byte) \<Rightarrow> bytes \<Rightarrow> string \<Rightarrow> nat \<Rightarrow> bytes" where
  "interrupted_output lib rnd data pw n = take (48 + n) (encryptFile lib rnd data pw)"

definition interrupted_checkpoint ::
  "crypto_lib \<Rightarrow> (nat \<Rightarrow> byte) \<Rightarrow> bytes \<Rightarrow> string \<Rightarrow> nat \<Rightarrow> OperationCheckpoint" where
  "interrupted_checkpoint lib rnd data pw n =
     \<lparr>id = ''op'', operation = Encrypt, inputPath = ''in'', outputPath = ''out'',
      password = encryptPassword lib pw,
      progress = (if data = [] then 0 else real n / real (length data)),
      bytesProcessed = n, totalBytes = length data, chunkSize = checkpointInterval,
      timestamp = 0, algorithm = ''aes-256-gcm'',
      salt = Some (randomBytes rnd 0 32), iv = Some (randomBytes rnd 32 16),
      tempDataPath = (if n > 0 then Some ''temp/op.temp'' else None)\<rparr>"

text \<open>
  A stored checkpoint for closed examples: one byte of two processed, a temp path
  recorded, and a file system that holds the checkpoint document and the input file but
  not the temp file.
\<close>

definition sample_ro :: ResumableOperation where
  "sample_ro = \<lparr>checkpointsDir = ''checkpoints'', tempDir = ''temp''\<rparr>"

definition sample_checkpoint :: OperationCheckpoint where
  "sample_checkpoint =
     \<lparr>id = ''op'', operation = Encrypt, inputPath = ''in'', outputPath = ''out'',
      password = ''pw'', progress = 1 / 2, bytesProcessed = 1, totalBytes = 2,
      chunkSize = checkpointInterval, timestamp = 0, algorithm = ''aes-256-gcm'',
      salt = Some (randomBytes sample_rnd 0 32), iv = Some (randomBytes sample_rnd 32 16),
      tempDataPath = Some ''temp/op.temp''\<rparr>"

definition sample_fs :: filesystem where
  "sample_fs = [''checkpoints/op.json'' \<mapsto> \<lparr>content = [], readable = True\<rparr>,
                ''in'' \<mapsto> \<lparr>content = [1, 2], readable = True\<rparr>]"

definition sample_parse :: "bytes \<Rightarrow> OperationCheckpoint option" where
  "sample_parse doc = Some sample_checkpoint"

section \<open>The worker pool manager\<close>

record WorkerTask =
  id :: string
  type :: operation
  inputPath :: string
  outputPath :: string
  password :: string

datatype status = Processing | Completed | Error

text \<open>
  The manager's fields. \<open>workers\<close> holds the keys of the \<^verbatim>\<open>Map<string, Worker>\<close> in
  insertion order; the \<^verbatim>\<open>Worker\<close> handles themselves carry no state of the manager.
\<close>

record EncryptionWorkerManager =
  workers :: "string list"
  activeTasksQueue :: "WorkerTask list"
  maxWorkers :: int
  currentWorkerCount :: int

definition new_manager :: "int \<Rightarrow> EncryptionWorkerManager" where
  "new_manager n = \<lparr>workers = [], activeTasksQueue = [], maxWorkers = n, currentWorkerCount = 0\<rparr>"

text \<open>\<^verbatim>\<open>Map.set\<close> keeps the position of a key that is already present.\<close>

definition map_set :: "string \<Rightarrow> string list \<Rightarrow> string list" where
  "map_set k ws = (if k \<in> set ws then ws else ws @ [k])"

definition startWorker :: "WorkerTask \<Rightarrow> EncryptionWorkerManager \<Rightarrow> EncryptionWorkerManager" where
  "startWorker task m =
     m\<lparr>workers := map_set (WorkerTask.id task) (workers m),
       currentWorkerCount := currentWorkerCount m + 1\<rparr>"

definition processQueue :: "EncryptionWorkerManager \<Rightarrow> EncryptionWorkerManager" where
  "processQueue m =
     (if length (activeTasksQueue m) = 0 \<or> currentWorkerCount m \<ge> maxWorkers m then m
      else (case activeTasksQueue m of
              [] \<Rightarrow> m
            | task # rest \<Rightarrow> startWorker task (m\<lparr>activeTasksQueue := rest\<rparr>)))"

definition queueTask :: "WorkerTask \<Rightarrow> EncryptionWorkerManager \<Rightarrow> EncryptionWorkerManager" where
  "queueTask task m = processQueue (m\<lparr>activeTasksQueue := activeTasksQueue m @ [task]\<rparr>)"

definition cleanupWorker :: "string \<Rightarrow> EncryptionWorkerManager \<Rightarrow> EncryptionWorkerManager" where
  "cleanupWorker taskId m =
     (if taskId \<in> set (workers m)
      then m\<lparr>workers := removeAll taskId (workers m),
             currentWorkerCount := currentWorkerCount m - 1\<rparr>
      else m)"

definition cancelTask :: "string \<Rightarrow> EncryptionWorkerManager \<Rightarrow> EncryptionWorkerManager" where
  "cancelTask taskId m =
     (let m1 = (if taskId \<in> set (workers m) then cleanupWorker taskId m else m)
      in m1\<lparr>activeTasksQueue :=
              filter (\<lambda>task. WorkerTask.id task \<noteq> taskId) (activeTasksQueue m1)\<rparr>)"

definition cancelAllTasks :: "EncryptionWorkerManager \<Rightarrow> EncryptionWorkerManager" where
  "cancelAllTasks m = (fold cleanupWorker (workers m) m)\<lparr>activeTasksQueue := []\<rparr>"

text \<open>
  What can happen to a manager. The three worker events are the handlers that
  \<open>startWorker\<close> installs for the worker of task \<open>taskId\<close>. A handler first calls
  \<^verbatim>\<open>this.emit\<close>, which runs the registered listeners synchronously; the flag
  \<open>listenersReturn\<close> says whether they all returned. When one throws, the exception
  leaves the handler and the statements after \<^verbatim>\<open>emit\<close> do not run. The listeners that
  \<^verbatim>\<open>processFileInBackground\<close> registers for each submitted task call
  \<^verbatim>\<open>this.removeListeners()\<close>, which the manager does not have (\<^verbatim>\<open>removeListeners\<close> is a
  local constant of that method): its \<^verbatim>\<open>workerProgress\<close> listener throws on a message of
  its task with status \<^verbatim>\<open>completed\<close> or \<^verbatim>\<open>error\<close>, and its \<^verbatim>\<open>workerError\<close> listener
  throws whenever it is called.
\<close>

datatype event =
    Queue WorkerTask
  | Message string status bool
  | WorkerError string bool
  | Exit string int bool
  | CancelTask string
  | CancelAll

fun step :: "EncryptionWorkerManager \<Rightarrow> event \<Rightarrow> EncryptionWorkerManager" where
  "step m (Queue task) = queueTask task m"
| "step m (Message taskId st listenersReturn) =
     (if \<not> listenersReturn then m
      else if st = Completed \<or> st = Error then processQueue (cleanupWorker taskId m)
      else m)"
| "step m (WorkerError taskId listenersReturn) =
     (if \<not> listenersReturn then m else processQueue (cleanupWorker taskId m))"
| "step m (Exit taskId code listenersReturn) =
     (if code \<noteq> 0 \<and> \<not> listenersReturn then m else processQueue (cleanupWorker taskId m))"
| "step m (CancelTask taskId) = cancelTask taskId m"
| "step m CancelAll = cancelAllTasks m"

definition run :: "EncryptionWorkerManager \<Rightarrow> event list \<Rightarrow> EncryptionWorkerManager" where
  "run m evs = foldl step m evs"

definition getActiveTaskCount :: "EncryptionWorkerManager \<Rightarrow> int" where
  "getActiveTaskCount m = currentWorkerCount m"

text \<open>
  The invariant of the pool: the counter covers every tracked worker and stays within
  \<open>maxWorkers\<close>.
\<close>

definition pool_inv :: "EncryptionWorkerManager \<Rightarrow> bool" where
  "pool_inv m \<longleftrightarrow>
     int (length (workers m)) \<le> currentWorkerCount m \<and> currentWorkerCount m \<le> maxWorkers m"

definition sample_task :: "string \<Rightarrow> WorkerTask" where
  "sample_task k = \<lparr>id = k, type = Encrypt, inputPath = ''in'', outputPath = ''out'',
                     password = ''pw''\<rparr>"

section \<open>The batch processor\<close>

record BatchFileInfo =
  inputPath :: string
  outputPath :: string
  name :: string
  size :: nat

record BatchProgress =
  fileIndex :: nat
  fileName :: string
  fileProgress :: real
  overallProgress :: real
  completed :: nat
  total :: nat
  errors :: "string list"

record BatchOptions =
  operation :: operation
  password :: string
  outputDirectory :: "string option"
  preserveStructure :: "bool option"
  overwriteExisting :: "bool option"

text \<open>
  The fields of a \<^verbatim>\<open>BatchProcessor\<close>. \<open>history\<close> lists the calls made to
  \<^verbatim>\<open>fileHistoryManager.addToHistory\<close>, which catches its own errors and never throws.
\<close>

record BatchProcessor =
  isProcessing :: bool
  shouldCancel :: bool
  history :: "(string \<times> operation) list"

text \<open>
  What awaiting \<^verbatim>\<open>processingleFile\<close> does for one file, as far as \<open>processFiles\<close> can
  see it: the progress reports that arrive while the file is awaited, whether the
  promise was rejected and with which message, and whether \<^verbatim>\<open>cancel()\<close> was called on
  the processor meanwhile. A report \<open>(j, f)\<close> is the per-file callback made for file
  \<open>j\<close> being called with the fraction \<open>f\<close>: the callback keeps the loop index \<open>j\<close> of
  its own round. Mostly \<open>j\<close> is the file being awaited; it is an earlier file when that
  file's engine still has a stream reading after its promise has settled, as the
  progress stream of \<^verbatim>\<open>decryptFile\<close>, which is never piped, can.
\<close>

record file_run =
  ticks :: "(nat \<times> real) list"
  failure :: "string option"
  cancelCalled :: bool

definition operation_name :: "operation \<Rightarrow> string" where
  "operation_name op = (case op of Encrypt \<Rightarrow> ''encrypt'' | Decrypt \<Rightarrow> ''decrypt'')"

text \<open>
  The state of one call of \<open>processFiles\<close>: the processor, the local \<open>progress\<close>
  object and the snapshots \<^verbatim>\<open>{ ...progress }\<close> handed to \<open>onProgress\<close> so far.
\<close>

record batch_state =
  processor :: BatchProcessor
  current :: BatchProgress
  emitted :: "BatchProgress list"

text \<open>
  The caller's \<open>onProgress\<close> is the parameter \<open>cb\<close>: \<open>cb p = Some e\<close> when the callback,
  given the snapshot \<open>p\<close>, throws an error with message \<open>e\<close>. \<open>processFiles\<close> itself
  calls it with the opening snapshot of each file and with the closing snapshot; a throw
  there leaves the loop and reaches the \<^verbatim>\<open>finally\<close>. The snapshots in between are
  handed over from inside the engine's stream handlers; what a throw does there belongs
  to the engine's run of that file, so for them the snapshot is only recorded.
\<close>

definition onProgress :: "batch_state \<Rightarrow> batch_state" where
  "onProgress s = s\<lparr>emitted := emitted s @ [current s]\<rparr>"

definition quiet :: "BatchProgress \<Rightarrow> string option" where
  "quiet p = None"

text \<open>
  The per-file callback of file \<open>i\<close>, called with the fraction \<open>fp\<close>: it writes two
  fields of the shared \<open>progress\<close> object and hands a snapshot to \<open>onProgress\<close>.
\<close>

definition fileTick :: "nat \<Rightarrow> batch_state \<Rightarrow> nat \<times> real \<Rightarrow> batch_state" where
  "fileTick n s report =
     (let i = fst report; fp = snd report
      in onProgress (s\<lparr>current := (current s)\<lparr>fileProgress := fp * 100,
                           overallProgress := ((real i + fp) / real n) * 100\<rparr>\<rparr>))"

text \<open>
  One round of the loop for file \<open>i\<close> of \<open>n\<close>; the first component of the result is the
  error thrown out of the round, if any.
\<close>

definition processOne ::
  "(BatchProgress \<Rightarrow> string option) \<Rightarrow> BatchOptions \<Rightarrow> nat \<Rightarrow> nat \<Rightarrow> BatchFileInfo \<times> file_run
     \<Rightarrow> batch_state \<Rightarrow> string option \<times> batch_state" where
  "processOne cb options n i job s =
     (let file = fst job; r = snd job;
          s1 = onProgress (s\<lparr>current := (current s)\<lparr>fileIndex := i, fileName := name file,
                   fileProgress := 0, overallProgress := (real i / real n) * 100\<rparr>\<rparr>)
      in (case cb (current s1) of
            Some e \<Rightarrow> (Some e, s1)
          | None \<Rightarrow>
              let s2 = foldl (fileTick n) s1 (ticks r);
                  s3 = s2\<lparr>processor := (processor s2)\<lparr>shouldCancel :=
                             shouldCancel (processor s2) \<or> cancelCalled r\<rparr>\<rparr>
              in (None,
                  (case failure r of
                     None \<Rightarrow>
                       s3\<lparr>current := (current s3)\<lparr>completed := completed (current s3) + 1\<rparr>,
                          processor := (processor s3)\<lparr>history := history (processor s3) @
                            [(BatchFileInfo.inputPath file, BatchOptions.operation options)]\<rparr>\<rparr>
                   | Some msg \<Rightarrow>
                       s3\<lparr>current := (current s3)\<lparr>errors := errors (current s3) @
                            [''Failed to '' @ operation_name (BatchOptions.operation options) @
                             '' '' @ name file @ '': '' @ msg]\<rparr>\<rparr>))))"

fun processLoop ::
  "(BatchProgress \<Rightarrow> string option) \<Rightarrow> BatchOptions \<Rightarrow> nat \<Rightarrow> nat
     \<Rightarrow> (BatchFileInfo \<times> file_run) list \<Rightarrow> batch_state \<Rightarrow> string option \<times> batch_state" where
  "processLoop cb options n i [] s = (None, s)"
| "processLoop cb options n i (job # jobs) s =
     (if shouldCancel (processor s) then (None, s)
      else (case processOne cb options n i job s of
              (Some e, s') \<Rightarrow> (Some e, s')
            | (None, s') \<Rightarrow> processLoop cb options n (i + 1) jobs s'))"

text \<open>
  \<open>processFiles\<close>: the guard, the two flags, the fresh \<open>progress\<close> object, the loop,
  the closing snapshot with \<open>overallProgress = 100\<close>, and the \<^verbatim>\<open>finally\<close> that clears
  \<open>isProcessing\<close> on every way out of the \<^verbatim>\<open>try\<close> block. The result is how the promise
  settles, the processor afterwards and the snapshots handed to the caller's
  \<open>onProgress\<close>.
\<close>

definition processFiles ::
  "(BatchProgress \<Rightarrow> string option) \<Rightarrow> BatchProcessor \<Rightarrow> (BatchFileInfo \<times> file_run) list
     \<Rightarrow> BatchOptions \<Rightarrow> (string + unit) \<times> BatchProcessor \<times> BatchProgress list" where
  "processFiles cb bp jobs options =
     (if isProcessing bp then (Inl ''Batch processing is already in progress'', bp, [])
      else
        let bp1 = bp\<lparr>isProcessing := True, shouldCancel := False\<rparr>;
            progress0 = \<lparr>fileIndex = 0, fileName = [], fileProgress = 0, overallProgress = 0,
                         completed = 0, total = length jobs, errors = []\<rparr>;
            s0 = \<lparr>processor = bp1, current = progress0, emitted = []\<rparr>
        in (case processLoop cb options (length jobs) 0 jobs s0 of
              (Some e, s1) \<Rightarrow> (Inl e, (processor s1)\<lparr>isProcessing := False\<rparr>, emitted s1)
            | (None, s1) \<Rightarrow>
                let s2 = onProgress (s1\<lparr>current := (current s1)\<lparr>overallProgress := 100\<rparr>\<rparr>)
                in (case cb (current s2) of
                      Some e \<Rightarrow> (Inl e, (processor s2)\<lparr>isProcessing := False\<rparr>, emitted s2)
                    | None \<Rightarrow> (Inr (), (processor s2)\<lparr>isProcessing := False\<rparr>, emitted s2))))"

definition isCurrentlyProcessing :: "BatchProcessor \<Rightarrow> bool" where
  "isCurrentlyProcessing bp = isProcessing bp"

text \<open>
  Measures of a batch: how many of its files fail, and how many progress fractions the
  engine reports over all files.
\<close>

definition failed :: "(BatchFileInfo \<times> file_run) list \<Rightarrow> nat" where
  "failed jobs = length (filter (\<lambda>job. failure (snd job) \<noteq> None) jobs)"

definition tick_count :: "(BatchFileInfo \<times> file_run) list \<Rightarrow> nat" where
  "tick_count jobs = sum_list (map (\<lambda>job. length (ticks (snd job))) jobs)"

text \<open>
  The aggregation formula as the specification words it, read off a snapshot
  (\<open>fileProgress\<close> is the reported fraction times 100).
\<close>

definition spec_overallFraction :: "BatchProgress \<Rightarrow> real" where
  "spec_overallFraction p = (real (completed p) + fileProgress p / 100) / real (total p)"

text \<open>
  The number of rounds the loop makes: it stops before the file that follows a call of
  \<^verbatim>\<open>cancel()\<close>.
\<close>

fun rounds :: "(BatchFileInfo \<times> file_run) list \<Rightarrow> nat" where
  "rounds [] = 0"
| "rounds (job # jobs) = Suc (if cancelCalled (snd job) then 0 else rounds jobs)"

text \<open>
  The overall percentages a run over \<open>jobs\<close> is to report, in order, when the first of
  the jobs is file \<open>i\<close> of \<open>n\<close>: for each file the percentage of its opening snapshot,
  \<open>(i / n) * 100\<close>, then \<open>((j + f) / n) * 100\<close> for each report \<open>(j, f)\<close> that arrives
  while it is awaited.
\<close>

fun expected_overall :: "nat \<Rightarrow> nat \<Rightarrow> (BatchFileInfo \<times> file_run) list \<Rightarrow> real list" where
  "expected_overall n i [] = []"
| "expected_overall n i (job # jobs) =
     ((real i / real n) * 100) #
     map (\<lambda>report. ((real (fst report) + snd report) / real n) * 100) (ticks (snd job)) @
     expected_overall n (i + 1) jobs"

text \<open>Batch inputs for closed examples.\<close>

definition sample_file :: "string \<Rightarrow> BatchFileInfo" where
  "sample_file k = \<lparr>inputPath = k, outputPath = k @ ''.enc'', name = k, size = 10\<rparr>"

definition sample_options :: BatchOptions where
  "sample_options = \<lparr>operation = Encrypt, password = ''pw'', outputDirectory = None,
                      preserveStructure = None, overwriteExisting = None\<rparr>"

definition idle_processor :: BatchProcessor where
  "idle_processor = \<lparr>isProcessing = False, shouldCancel = False, history = []\<rparr>"

definition busy_processor :: BatchProcessor where
  "busy_processor = \<lparr>isProcessing = True, shouldCancel = False, history = []\<rparr>"

definition failing_run :: file_run where
  "failing_run = \<lparr>ticks = [], failure = Some ''ENOENT: no such file or directory'',
                   cancelCalled = False\<rparr>"

definition half_run :: file_run where
  "half_run = \<lparr>ticks = [(1, 1 / 2)], failure = None, cancelCalled = False\<rparr>"

definition sample_jobs :: "(BatchFileInfo \<times> file_run) list" where
  "sample_jobs = [(sample_file ''a'', failing_run), (sample_file ''b'', half_run)]"

text \<open>
  A batch whose first file fails at once while its progress stream goes on reading: the
  report of that stream arrives while the second file is awaited.
\<close>

definition late_run :: file_run where
  "late_run = \<lparr>ticks = [(0, 1), (1, 1 / 2)], failure = None, cancelCalled = False\<rparr>"

definition late_jobs :: "(BatchFileInfo \<times> file_run) list" where
  "late_jobs = [(sample_file ''a'', failing_run), (sample_file ''b'', late_run)]"

section \<open>Properties of the cipher engine\<close>

lemma length_randomBytes: "length (randomBytes rnd off n) = n"
  by (simp add: randomBytes_def)

lemma length_cipher_update: "length (cipher_update lib k v data) = length data"
  by (simp add: cipher_update_def)

lemma cipher_update_involution:
  "cipher_update lib k v (cipher_update lib k v data) = data"
  by (rule nth_equalityI) (simp_all add: cipher_update_def xor.assoc)

lemma encryptFile_written:
  "encryptFile lib rnd data pw =
     randomBytes rnd 0 32 @ randomBytes rnd 32 16 @
     cipher_update lib (pbkdf2Sync lib pw (randomBytes rnd 0 32)) (randomBytes rnd 32 16) data"
  by (simp add: encryptFile_def Let_def createWriteStream_def stream_write_def pipeline_def)

lemma length_encryptFile: "length (encryptFile lib rnd data pw) = 48 + length data"
  by (simp add: encryptFile_written length_randomBytes length_cipher_update)

lemma decryptFile_short:
  "length file \<le> 64 \<Longrightarrow> decryptFile lib file pw = (Inl ERR_OUT_OF_RANGE, [])"
  by (simp add: decryptFile_def Let_def)

lemma decryptFile_output_length:
  "length file > 64 \<Longrightarrow> length (snd (decryptFile lib file pw)) = length file - 64"
  by (simp add: decryptFile_def Let_def length_cipher_update)

text \<open>
  Claim C1 (round trip). The claim asks that decrypting what \<open>encryptFile\<close> wrote, with
  the same password, gives the plaintext back, for every size and for size 0 in
  particular. For the empty plaintext the code does not get that far: the encrypted
  file holds no ciphertext byte, so \<open>decryptFile\<close> asks for a read stream that ends
  before byte 48, where it starts, and the call fails with \<^verbatim>\<open>ERR_OUT_OF_RANGE\<close>
  without writing anything.
\<close>

theorem roundtrip_empty_out_of_range:
  "decryptFile lib (encryptFile lib rnd [] pw) pw = (Inl ERR_OUT_OF_RANGE, [])"
  by (rule decryptFile_short) (simp add: length_encryptFile)

text \<open>
  The same holds at every size: the tag is written after the pipeline has ended the
  output stream, so the file stops after the ciphertext, \<open>decryptFile\<close> takes the last
  16 ciphertext bytes for the tag, and what it writes is 16 bytes shorter than the
  plaintext whenever it writes anything.
\<close>

lemma roundtrip_never_returns_plaintext:
  "decryptFile lib (encryptFile lib rnd data pw) pw2 \<noteq> (Inr (), data)"
proof (cases "length (encryptFile lib rnd data pw) \<le> 64")
  case True
  then show ?thesis by (simp add: decryptFile_short)
next
  case False
  then have "length (snd (decryptFile lib (encryptFile lib rnd data pw) pw2)) = length data - 16"
    by (simp add: decryptFile_output_length length_encryptFile)
  moreover from False have "length data > 16" by (simp add: length_encryptFile)
  ultimately show ?thesis by auto
qed

text \<open>
  Had the tag reached the file, \<open>decryptFile\<close> would give a non-empty plaintext back:
  it reads salt, iv and tag from where \<open>encryptFile\<close> means to put them, and the
  decipher undoes the cipher.
\<close>

lemma readSync_exact:
  "length pre = pos \<Longrightarrow> length x = len \<Longrightarrow> readSync (pre @ x @ post) len pos = x"
  by (simp add: readSync_def)

lemma decryptFile_long:
  assumes "length file = 64 + n" "0 < n"
  shows "decryptFile lib file pw =
     (if gcmTag lib (pbkdf2Sync lib pw (readSync file 32 0)) (readSync file 16 32)
           (take n (drop 48 file)) = readSync file 16 (48 + n)
      then (Inr (), cipher_update lib (pbkdf2Sync lib pw (readSync file 32 0))
                      (readSync file 16 32) (take n (drop 48 file)))
      else (Inl AuthenticationFailed,
            cipher_update lib (pbkdf2Sync lib pw (readSync file 32 0))
              (readSync file 16 32) (take n (drop 48 file))))"
  using assms by (simp add: decryptFile_def Let_def nat_add_distrib)

lemma decryptFile_of_tagged_file:
  assumes "data \<noteq> []"
    and "length (gcmTag lib (pbkdf2Sync lib pw (randomBytes rnd 0 32)) (randomBytes rnd 32 16)
           (cipher_update lib (pbkdf2Sync lib pw (randomBytes rnd 0 32)) (randomBytes rnd 32 16) data)) = 16"
  shows "decryptFile lib
           (encryptFile lib rnd data pw @
            gcmTag lib (pbkdf2Sync lib pw (randomBytes rnd 0 32)) (randomBytes rnd 32 16)
              (cipher_update lib (pbkdf2Sync lib pw (randomBytes rnd 0 32)) (randomBytes rnd 32 16) data))
           pw = (Inr (), data)"
proof -
  define s where "s = randomBytes rnd 0 32"
  define v where "v = randomBytes rnd 32 16"
  define c where "c = cipher_update lib (pbkdf2Sync lib pw s) v data"
  define t where "t = gcmTag lib (pbkdf2Sync lib pw s) v c"
  define f where "f = s @ v @ c @ t"
  have ls: "length s = 32" and lv: "length v = 16" and lc: "length c = length data"
    and lt: "length t = 16"
    using assms(2) by (simp_all add: s_def v_def c_def t_def length_randomBytes length_cipher_update)
  have f: "encryptFile lib rnd data pw @
            gcmTag lib (pbkdf2Sync lib pw (randomBytes rnd 0 32)) (randomBytes rnd 32 16)
              (cipher_update lib (pbkdf2Sync lib pw (randomBytes rnd 0 32)) (randomBytes rnd 32 16) data) = f"
    by (simp add: encryptFile_written f_def s_def v_def c_def t_def)
  have len: "length f = 64 + length data"
    by (simp add: f_def ls lv lc lt)
  have rs: "readSync f 32 0 = s"
    unfolding f_def using readSync_exact [of "[]" 0 s 32 "v @ c @ t"] ls by simp
  have rv: "readSync f 16 32 = v"
    unfolding f_def using readSync_exact [of s 32 v 16 "c @ t"] ls lv by simp
  have rt: "readSync f 16 (48 + length data) = t"
    unfolding f_def using readSync_exact [of "s @ v @ c" "48 + length data" t 16 "[]"] ls lv lc lt
    by simp
  have rc: "take (length data) (drop 48 f) = c"
    by (simp add: f_def ls lv lc)
  have n: "0 < length data" using assms(1) by simp
  have "decryptFile lib f pw = (Inr (), cipher_update lib (pbkdf2Sync lib pw s) v c)"
    by (simp add: decryptFile_long [OF len n] rs rv rt rc t_def)
  then show ?thesis
    unfolding f by (simp add: c_def cipher_update_involution)
qed

text \<open>
  Claim C2 (wrong password). The claim asks for an authentication error whenever the
  password differs from the one used to encrypt. For the file written for an empty
  plaintext the code raises \<^verbatim>\<open>ERR_OUT_OF_RANGE\<close> instead, whatever the password: the
  read stream of the ciphertext would have to end before it starts, and no key is ever
  used to check a tag.
\<close>

theorem wrong_password_empty_file_out_of_range:
  "pw2 \<noteq> pw \<Longrightarrow>
   decryptFile lib (encryptFile lib rnd [] pw) pw2 = (Inl ERR_OUT_OF_RANGE, []) \<and>
   fst (decryptFile lib (encryptFile lib rnd [] pw) pw2) \<noteq> Inl AuthenticationFailed"
  by (simp add: decryptFile_short length_encryptFile)

theorem wrong_password_empty_file_witness:
  "''b'' \<noteq> ''a'' \<and>
   decryptFile sample_lib (encryptFile sample_lib sample_rnd [] ''a'') ''b''
     = (Inl ERR_OUT_OF_RANGE, [])"
  using wrong_password_empty_file_out_of_range [of "''b''" "''a''" sample_lib sample_rnd]
  by simp

lemma envelope_layout_length:
  assumes "envelope_layout file"
  shows "length file = 64 \<or> 80 \<le> length file"
proof -
  from assms obtain version s nonce cs tot chunks where
    h: "length version = 4" "length s = 32" "length nonce = 16" "length cs = 4" "length tot = 8"
       "list_all (\<lambda>(c, t). length t = 16) chunks"
       "file = version @ s @ nonce @ cs @ tot @ concat (map (\<lambda>(c, t). c @ t) chunks)"
    unfolding envelope_layout_def by blast
  show ?thesis
  proof (cases chunks)
    case Nil
    with h show ?thesis by simp
  next
    case (Cons p ps)
    obtain c t where p: "p = (c, t)" by (cases p)
    from h(6) Cons p have "length t = 16" by simp
    with h Cons p show ?thesis by simp
  qed
qed

text \<open>
  Claim C3 (envelope layout), as stated: every file written by \<open>encryptFile\<close> has the
  64-byte header followed by (ciphertext, tag) pairs. The file written for a one-byte
  plaintext has 49 bytes, which no such layout has.
\<close>

theorem envelope_layout_counterexample:
  "\<not> envelope_layout (encryptFile sample_lib sample_rnd [0] ''pw'')"
proof
  assume "envelope_layout (encryptFile sample_lib sample_rnd [0] ''pw'')"
  from envelope_layout_length [OF this] show False
    by (simp add: length_encryptFile)
qed

text \<open>
  Claim C3 as amended: every file written by \<open>encryptFile\<close> starts with the 32-byte
  salt, then the 16-byte iv, then the ciphertext of the whole plaintext under one
  cipher stream, as long as the plaintext; there is no version, chunk-size or length
  field and no tag between parts of the ciphertext.
\<close>

theorem encryptFile_layout:
  "take 32 (encryptFile lib rnd data pw) = randomBytes rnd 0 32 \<and>
   take 16 (drop 32 (encryptFile lib rnd data pw)) = randomBytes rnd 32 16 \<and>
   take (length data) (drop 48 (encryptFile lib rnd data pw)) =
     cipher_update lib (pbkdf2Sync lib pw (randomBytes rnd 0 32)) (randomBytes rnd 32 16) data"
  by (simp add: encryptFile_written length_randomBytes length_cipher_update)

lemma interrupted_output_eq:
  "n \<le> length data \<Longrightarrow>
   interrupted_output lib rnd data pw n =
     randomBytes rnd 0 32 @ randomBytes rnd 32 16 @
     take n (cipher_update lib (pbkdf2Sync lib pw (randomBytes rnd 0 32))
               (randomBytes rnd 32 16) data)"
  by (simp add: interrupted_output_def encryptFile_written length_randomBytes)

lemma resumeEncryption_interrupted:
  "resumeEncryption lib (interrupted_checkpoint lib rnd data pw n) pw data existing =
     Inr (existing @
          cipher_update lib (pbkdf2Sync lib pw (randomBytes rnd 0 32)) (randomBytes rnd 32 16)
            (drop n data) @
          gcmTag lib (pbkdf2Sync lib pw (randomBytes rnd 0 32)) (randomBytes rnd 32 16)
            (cipher_update lib (pbkdf2Sync lib pw (randomBytes rnd 0 32))
               (randomBytes rnd 32 16) (drop n data)))"
  by (simp add: resumeEncryption_def interrupted_checkpoint_def Let_def)

text \<open>
  Claim C4 (resume equivalence). The claim asks that resuming after \<open>n\<close> bytes gives the
  file an uninterrupted run gives. In the code the resumed file agrees with it on the
  48 header bytes and the first \<open>n\<close> ciphertext bytes and leaves it at the next byte:
  the new cipher starts its key stream at position 0, so plaintext byte \<open>n\<close> is XORed
  with key stream byte 0, where the uninterrupted run uses key stream byte \<open>n\<close>. What
  follows the ciphertext in the resumed file is a tag over the resumed part of the
  ciphertext alone.
\<close>

theorem resumeEncryption_restarts_keystream:
  assumes "n < length data"
  shows "\<exists>resumed.
     resumeEncryption lib (interrupted_checkpoint lib rnd data pw n) pw data
       (interrupted_output lib rnd data pw n) = Inr resumed \<and>
     take (48 + n) resumed = take (48 + n) (encryptFile lib rnd data pw) \<and>
     resumed ! (48 + n) =
       data ! n XOR
       keystream lib (pbkdf2Sync lib pw (randomBytes rnd 0 32)) (randomBytes rnd 32 16) 0 \<and>
     encryptFile lib rnd data pw ! (48 + n) =
       data ! n XOR
       keystream lib (pbkdf2Sync lib pw (randomBytes rnd 0 32)) (randomBytes rnd 32 16) n \<and>
     drop (48 + length data) resumed =
       gcmTag lib (pbkdf2Sync lib pw (randomBytes rnd 0 32)) (randomBytes rnd 32 16)
         (cipher_update lib (pbkdf2Sync lib pw (randomBytes rnd 0 32))
            (randomBytes rnd 32 16) (drop n data))"
  using assms
  apply (simp add: resumeEncryption_interrupted)
  apply (simp add: interrupted_output_eq encryptFile_written length_randomBytes
      length_cipher_update nth_append)
  apply (simp add: cipher_update_def)
  done

theorem resumeEncryption_restarts_keystream_witness:
  "(1 :: nat) < length [1, 2 :: byte] \<and>
   resumeEncryption sample_lib (interrupted_checkpoint sample_lib sample_rnd [1, 2] ''pw'' 1)
     ''pw'' [1, 2] (interrupted_output sample_lib sample_rnd [1, 2] ''pw'' 1)
   \<noteq> Inr (encryptFile sample_lib sample_rnd [1, 2] ''pw'')"
proof -
  have h: "(1 :: nat) < length [1, 2 :: byte]" by simp
  from resumeEncryption_restarts_keystream [OF h, of sample_lib sample_rnd "''pw''"]
  obtain resumed where
    r: "resumeEncryption sample_lib (interrupted_checkpoint sample_lib sample_rnd [1, 2] ''pw'' 1)
          ''pw'' [1, 2] (interrupted_output sample_lib sample_rnd [1, 2] ''pw'' 1) = Inr resumed"
    and x: "resumed ! (48 + 1) = [1, 2] ! 1 XOR
       keystream sample_lib (pbkdf2Sync sample_lib ''pw'' (randomBytes sample_rnd 0 32))
         (randomBytes sample_rnd 32 16) 0"
    and y: "encryptFile sample_lib sample_rnd [1, 2] ''pw'' ! (48 + 1) = [1, 2] ! 1 XOR
       keystream sample_lib (pbkdf2Sync sample_lib ''pw'' (randomBytes sample_rnd 0 32))
         (randomBytes sample_rnd 32 16) 1"
    by blast
  have "length (pbkdf2Sync sample_lib ''pw'' (randomBytes sample_rnd 0 32)) = 32"
    by (simp add: sample_lib_def length_randomBytes)
  with x y have "resumed ! 49 = 34" "encryptFile sample_lib sample_rnd [1, 2] ''pw'' ! 49 = 35"
    by (simp_all add: sample_lib_def)
  then have "resumed \<noteq> encryptFile sample_lib sample_rnd [1, 2] ''pw''"
    by auto
  with r h show ?thesis by simp
qed

section \<open>Properties of the checkpoint store\<close>

lemma loadCheckpoint_sample:
  "loadCheckpoint sample_ro sample_parse sample_fs ''op'' = Some sample_checkpoint"
  by (simp add: loadCheckpoint_def sample_ro_def sample_parse_def sample_fs_def path_join_def
      existsSync_def openSync_def)

lemma daysSinceCheckpoint_gt_7:
  "daysSinceCheckpoint now cp > 7 \<longleftrightarrow> now - timestamp cp > 604800000"
  by (simp add: daysSinceCheckpoint_def field_simps) linarith

text \<open>
  Claim C5 (order of the resume checks), as stated: the age check comes before the check
  of the temp snapshot. For a checkpoint that is eight days old and whose temp file is
  gone, the code answers with the reason of the temp check, the stated order with the
  reason of the age check.
\<close>

theorem canResume_order_counterexample:
  "canResumeOperation sample_lib sample_ro sample_parse sample_fs 691200000 ''op'' ''pw''
     = cannot ''Temporary data lost'' \<and>
   canResume_spec sample_lib sample_ro sample_parse sample_fs 691200000 ''op'' ''pw''
     = cannot ''Checkpoint is too old (>7 days)''"
  unfolding canResumeOperation_def canResume_spec_def loadCheckpoint_sample
  by (simp add: verifyPassword_def sample_lib_def sample_checkpoint_def existsSync_def
      statSync_size_def sample_fs_def truthy_def daysSinceCheckpoint_def)

text \<open>
  Claim C5 as amended: the checks run in the order checkpoint loads, password verifier
  matches, input file exists, input size equals \<open>totalBytes\<close>, the temp file exists when
  the checkpoint records a temp path, age at most 7 days (604800000 ms); the first one
  that fails decides the reason, and when none fails the answer is resumable and carries
  the checkpoint.
\<close>

theorem canResumeOperation_order:
  "(loadCheckpoint ro parse fs oid = None \<longrightarrow>
      canResumeOperation lib ro parse fs now oid pw = cannot ''Checkpoint not found'') \<and>
   (loadCheckpoint ro parse fs oid = Some cp \<longrightarrow>
      (\<not> verifyPassword lib pw (OperationCheckpoint.password cp) \<longrightarrow>
         canResumeOperation lib ro parse fs now oid pw = cannot ''Invalid password'') \<and>
      (verifyPassword lib pw (OperationCheckpoint.password cp) \<longrightarrow>
         (\<not> existsSync fs (OperationCheckpoint.inputPath cp) \<longrightarrow>
            canResumeOperation lib ro parse fs now oid pw =
              cannot ''Input file no longer exists'') \<and>
         (existsSync fs (OperationCheckpoint.inputPath cp) \<longrightarrow>
            (statSync_size fs (OperationCheckpoint.inputPath cp) \<noteq> Inr (totalBytes cp) \<longrightarrow>
               canResumeOperation lib ro parse fs now oid pw =
                 cannot ''Input file has been modified'') \<and>
            (statSync_size fs (OperationCheckpoint.inputPath cp) = Inr (totalBytes cp) \<longrightarrow>
               (truthy (tempDataPath cp) \<and> \<not> existsSync fs (the (tempDataPath cp)) \<longrightarrow>
                  canResumeOperation lib ro parse fs now oid pw =
                    cannot ''Temporary data lost'') \<and>
               (\<not> (truthy (tempDataPath cp) \<and> \<not> existsSync fs (the (tempDataPath cp))) \<longrightarrow>
                  (now - timestamp cp > 604800000 \<longrightarrow>
                     canResumeOperation lib ro parse fs now oid pw =
                       cannot ''Checkpoint is too old (>7 days)'') \<and>
                  (now - timestamp cp \<le> 604800000 \<longrightarrow>
                     canResumeOperation lib ro parse fs now oid pw =
                       \<lparr>canResume = True, checkpoint = Some cp, reason = None\<rparr>))))))"
  by (simp add: canResumeOperation_def daysSinceCheckpoint_gt_7)

theorem canResumeOperation_order_witness:
  "loadCheckpoint sample_ro sample_parse sample_fs ''op'' = Some sample_checkpoint \<and>
   verifyPassword sample_lib ''pw'' (OperationCheckpoint.password sample_checkpoint) \<and>
   existsSync sample_fs (OperationCheckpoint.inputPath sample_checkpoint) \<and>
   statSync_size sample_fs (OperationCheckpoint.inputPath sample_checkpoint)
     = Inr (totalBytes sample_checkpoint) \<and>
   truthy (tempDataPath sample_checkpoint) \<and>
   \<not> existsSync sample_fs (the (tempDataPath sample_checkpoint)) \<and>
   canResumeOperation sample_lib sample_ro sample_parse sample_fs 1000 ''op'' ''pw''
     = cannot ''Temporary data lost''"
  using canResumeOperation_order [of sample_ro sample_parse sample_fs "''op''" sample_lib
      1000 "''pw''" sample_checkpoint] loadCheckpoint_sample
  by (simp add: verifyPassword_def sample_lib_def sample_checkpoint_def existsSync_def
      statSync_size_def sample_fs_def truthy_def)

section \<open>Properties of isFileEncrypted\<close>

text \<open>
  Claim C10. \<open>isFileEncrypted\<close> answers true exactly for a path that names a file the
  process can open for reading and that is longer than 64 bytes; the answer depends on
  the content through its length only; and every error of the body (the path is
  missing, the file cannot be opened) becomes the answer false.
\<close>

theorem isFileEncrypted_iff:
  "(isFileEncrypted fs p \<longleftrightarrow> (\<exists>f. fs p = Some f \<and> readable f \<and> 64 < length (content f))) \<and>
   (isFileEncrypted (fs(p \<mapsto> \<lparr>content = c, readable = True\<rparr>)) p \<longleftrightarrow> 64 < length c) \<and>
   (isFileEncrypted_try fs p = Inl e \<longrightarrow> isFileEncrypted fs p = False)"
  by (auto simp: isFileEncrypted_def isFileEncrypted_try_def openSync_def statSync_size_def
      Let_def split: option.splits sum.splits if_splits)

theorem isFileEncrypted_iff_witness:
  "isFileEncrypted_try sample_fs ''missing'' = Inl ENOENT \<and>
   isFileEncrypted sample_fs ''missing'' = False \<and>
   isFileEncrypted (sample_fs(''big'' \<mapsto> \<lparr>content = replicate 65 0, readable = True\<rparr>)) ''big''"
  using isFileEncrypted_iff [of sample_fs "''missing''" "replicate 65 0" ENOENT]
    isFileEncrypted_iff [of sample_fs "''big''" "replicate 65 0" ENOENT]
  by (simp add: isFileEncrypted_try_def openSync_def sample_fs_def)

section \<open>Properties of the worker pool manager\<close>

lemma length_map_set: "length (map_set k ws) \<le> Suc (length ws)"
  by (simp add: map_set_def)

lemma length_removeAll_less: "k \<in> set ws \<Longrightarrow> length (removeAll k ws) < length ws"
  by (induction ws) (auto simp: less_Suc_eq_le)

lemma inv_processQueue: "pool_inv m \<Longrightarrow> pool_inv (processQueue m)"
  using length_map_set [of "WorkerTask.id (hd (activeTasksQueue m))" "workers m"]
  by (auto simp: pool_inv_def processQueue_def startWorker_def split: list.splits)

lemma max_processQueue: "maxWorkers (processQueue m) = maxWorkers m"
  by (auto simp: processQueue_def startWorker_def split: list.splits)

lemma inv_cleanupWorker: "pool_inv m \<Longrightarrow> pool_inv (cleanupWorker k m)"
  using length_removeAll_less [of k "workers m"]
  by (auto simp: pool_inv_def cleanupWorker_def)

lemma max_cleanupWorker: "maxWorkers (cleanupWorker k m) = maxWorkers m"
  by (simp add: cleanupWorker_def)

lemma inv_fold_cleanup: "pool_inv m \<Longrightarrow> pool_inv (fold cleanupWorker ks m)"
  by (induction ks arbitrary: m) (simp_all add: inv_cleanupWorker)

lemma max_fold_cleanup: "maxWorkers (fold cleanupWorker ks m) = maxWorkers m"
  by (induction ks arbitrary: m) (simp_all add: max_cleanupWorker)

lemma inv_queue_update: "pool_inv (m\<lparr>activeTasksQueue := q\<rparr>) = pool_inv m"
  by (simp add: pool_inv_def)

lemma inv_step: "pool_inv m \<Longrightarrow> pool_inv (step m ev)"
  by (cases ev)
     (simp_all add: queueTask_def cancelTask_def cancelAllTasks_def Let_def inv_processQueue
        inv_cleanupWorker inv_fold_cleanup inv_queue_update)

lemma max_step: "maxWorkers (step m ev) = maxWorkers m"
  by (cases ev)
     (simp_all add: queueTask_def cancelTask_def cancelAllTasks_def Let_def max_processQueue
        max_cleanupWorker max_fold_cleanup)

lemma inv_run: "pool_inv m \<Longrightarrow> pool_inv (run m evs)"
  unfolding run_def by (induction evs arbitrary: m) (simp_all add: inv_step)

lemma max_run: "maxWorkers (run m evs) = maxWorkers m"
  unfolding run_def by (induction evs arbitrary: m) (simp_all add: max_step)

lemma inv_new: "0 \<le> n \<Longrightarrow> pool_inv (new_manager n)"
  by (simp add: pool_inv_def new_manager_def)

text \<open>
  What holds of the pool for a manager made with a worker limit \<open>n \<ge> 0\<close>, over any
  sequence of submissions, worker messages, worker errors, worker exits and
  cancellations: the number of tracked workers is at most the manager's counter of
  active tasks, which is at most \<open>n\<close>; a task submitted at capacity goes to the end of
  the queue and nothing starts; and when the handler of a worker that holds a slot gets
  to \<open>cleanupWorker\<close>, the slot is released and the task at the head of the queue is
  started in the same step.
\<close>

lemma pool_counter_bound:
  assumes "0 \<le> n" and "m = run (new_manager n) evs"
  shows "int (length (workers m)) \<le> getActiveTaskCount m \<and> getActiveTaskCount m \<le> n \<and>
         maxWorkers m = n \<and>
         (getActiveTaskCount m \<ge> n \<longrightarrow>
            step m (Queue task) = m\<lparr>activeTasksQueue := activeTasksQueue m @ [task]\<rparr>) \<and>
         (taskId \<in> set (workers m) \<and> activeTasksQueue m = next_task # rest \<longrightarrow>
            step m (Exit taskId 0 listenersReturn) =
              startWorker next_task ((cleanupWorker taskId m)\<lparr>activeTasksQueue := rest\<rparr>) \<and>
            step m (Message taskId Completed True) = step m (Exit taskId 0 listenersReturn) \<and>
            step m (Message taskId Error True) = step m (Exit taskId 0 listenersReturn) \<and>
            step m (WorkerError taskId True) = step m (Exit taskId 0 listenersReturn))"
proof -
  have inv: "pool_inv m"
    using assms by (simp add: inv_run inv_new)
  have mx: "maxWorkers m = n"
    using assms by (simp add: max_run new_manager_def)
  have a: "int (length (workers m)) \<le> getActiveTaskCount m \<and> getActiveTaskCount m \<le> n"
    using inv mx by (simp add: pool_inv_def getActiveTaskCount_def)
  have b: "getActiveTaskCount m \<ge> n \<longrightarrow>
            step m (Queue task) = m\<lparr>activeTasksQueue := activeTasksQueue m @ [task]\<rparr>"
    using mx by (simp add: queueTask_def processQueue_def getActiveTaskCount_def)
  have c: "taskId \<in> set (workers m) \<and> activeTasksQueue m = next_task # rest \<longrightarrow>
            step m (Exit taskId 0 listenersReturn) =
              startWorker next_task ((cleanupWorker taskId m)\<lparr>activeTasksQueue := rest\<rparr>)"
    using inv mx by (auto simp: processQueue_def cleanupWorker_def pool_inv_def)
  have d: "step m (Message taskId Completed True) = step m (Exit taskId 0 listenersReturn)"
          "step m (Message taskId Error True) = step m (Exit taskId 0 listenersReturn)"
          "step m (WorkerError taskId True) = step m (Exit taskId 0 listenersReturn)"
    by simp_all
  from a mx b c d show ?thesis by blast
qed

lemma pool_counter_bound_example:
  "(0::int) \<le> 1 \<and>
   getActiveTaskCount (run (new_manager 1)
      [Queue (sample_task ''a''), Queue (sample_task ''b''), Queue (sample_task ''c'')]) = 1 \<and>
   step (run (new_manager 1)
      [Queue (sample_task ''a''), Queue (sample_task ''b''), Queue (sample_task ''c'')])
      (Exit ''a'' 0 True) =
     \<lparr>workers = [''b''], activeTasksQueue = [sample_task ''c''], maxWorkers = 1,
      currentWorkerCount = 1\<rparr>"
  using pool_counter_bound [of 1 "run (new_manager 1)
      [Queue (sample_task ''a''), Queue (sample_task ''b''), Queue (sample_task ''c'')]"
      "[Queue (sample_task ''a''), Queue (sample_task ''b''), Queue (sample_task ''c'')]"
      "sample_task ''d''" "''a''" "sample_task ''b''" "[sample_task ''c'']" True]
  by (simp add: run_def new_manager_def queueTask_def processQueue_def startWorker_def
      cleanupWorker_def map_set_def sample_task_def getActiveTaskCount_def)

text \<open>
  Claim C6 (pool bound, queue and freed slots). The claim asks that a freed slot
  triggers re-examination of the queue. Take a limit of one worker, task \<open>a\<close> running
  and task \<open>b\<close> queued. \<open>cancelTask\<close> releases the slot of \<open>a\<close> and does not call
  \<open>processQueue\<close>. The exit event of the terminated worker comes with a non-zero code,
  so its handler emits \<^verbatim>\<open>workerError\<close> first; the listener throws, and the
  \<open>processQueue\<close> at the end of the handler is not reached. No worker is active, the
  counter is below the limit, and \<open>b\<close> is still queued. Had the listener returned, the
  exit handler would have started \<open>b\<close>.
\<close>

theorem cancelTask_leaves_queue_waiting:
  "run (new_manager 1)
     [Queue (sample_task ''a''), Queue (sample_task ''b''), CancelTask ''a'']
     = \<lparr>workers = [], activeTasksQueue = [sample_task ''b''], maxWorkers = 1,
        currentWorkerCount = 0\<rparr> \<and>
   run (new_manager 1)
     [Queue (sample_task ''a''), Queue (sample_task ''b''), CancelTask ''a'', Exit ''a'' 1 False]
     = \<lparr>workers = [], activeTasksQueue = [sample_task ''b''], maxWorkers = 1,
        currentWorkerCount = 0\<rparr> \<and>
   run (new_manager 1)
     [Queue (sample_task ''a''), Queue (sample_task ''b''), CancelTask ''a'', Exit ''a'' 1 True]
     = \<lparr>workers = [''b''], activeTasksQueue = [], maxWorkers = 1, currentWorkerCount = 1\<rparr>"
  by (simp add: run_def new_manager_def queueTask_def processQueue_def startWorker_def
      cleanupWorker_def cancelTask_def map_set_def sample_task_def Let_def)

section \<open>Properties of the batch processor\<close>

lemma failed_le: "failed jobs \<le> length jobs"
  by (simp add: failed_def)

lemma failed_Cons:
  "failed (job # jobs) = (if failure (snd job) = None then failed jobs else Suc (failed jobs))"
  by (simp add: failed_def)

lemma foldl_fileTick_processor: "processor (foldl (fileTick n) s ts) = processor s"
  by (induction ts arbitrary: s) (simp_all add: fileTick_def onProgress_def Let_def)

lemma foldl_fileTick_current:
  "completed (current (foldl (fileTick n) s ts)) = completed (current s) \<and>
   errors (current (foldl (fileTick n) s ts)) = errors (current s) \<and>
   total (current (foldl (fileTick n) s ts)) = total (current s) \<and>
   fileIndex (current (foldl (fileTick n) s ts)) = fileIndex (current s)"
  by (induction ts arbitrary: s) (simp_all add: fileTick_def onProgress_def Let_def)

lemma foldl_fileTick_length:
  "length (emitted (foldl (fileTick n) s ts)) = length (emitted s) + length ts"
  by (induction ts arbitrary: s) (simp_all add: fileTick_def onProgress_def Let_def)

lemma foldl_fileTick_overall:
  "map overallProgress (emitted (foldl (fileTick n) s ts)) =
     map overallProgress (emitted s) @
     map (\<lambda>report. ((real (fst report) + snd report) / real n) * 100) ts"
  by (induction ts arbitrary: s) (simp_all add: fileTick_def onProgress_def Let_def)

lemma processOne_quiet_returns: "fst (processOne quiet options n i job s) = None"
  by (simp add: processOne_def Let_def quiet_def)

lemma processOne_facts:
  "completed (current (snd (processOne quiet options n i job s))) =
     completed (current s) + (if failure (snd job) = None then 1 else 0) \<and>
   length (errors (current (snd (processOne quiet options n i job s)))) =
     length (errors (current s)) + (if failure (snd job) = None then 0 else 1) \<and>
   total (current (snd (processOne quiet options n i job s))) = total (current s) \<and>
   length (emitted (snd (processOne quiet options n i job s))) =
     length (emitted s) + 1 + length (ticks (snd job)) \<and>
   shouldCancel (processor (snd (processOne quiet options n i job s))) =
     (shouldCancel (processor s) \<or> cancelCalled (snd job))"
  by (simp add: processOne_def Let_def quiet_def foldl_fileTick_processor foldl_fileTick_current
      foldl_fileTick_length onProgress_def split: option.splits)

lemma processOne_overall:
  "map overallProgress (emitted (snd (processOne quiet options n i job s))) =
     map overallProgress (emitted s) @
     ((real i / real n) * 100) #
     map (\<lambda>report. ((real (fst report) + snd report) / real n) * 100) (ticks (snd job))"
  by (simp add: processOne_def Let_def quiet_def foldl_fileTick_overall onProgress_def
      split: option.splits)

lemma processLoop_quiet_step:
  "processLoop quiet options n i (job # jobs) s =
     (if shouldCancel (processor s) then (None, s)
      else processLoop quiet options n (i + 1) jobs (snd (processOne quiet options n i job s)))"
  using processOne_quiet_returns [of options n i job s]
  by (cases "processOne quiet options n i job s") simp

lemma processLoop_quiet_returns: "fst (processLoop quiet options n i jobs s) = None"
  by (induction jobs arbitrary: i s)
     (simp_all add: processLoop_quiet_step del: processLoop.simps(2))

lemma processLoop_facts:
  assumes "\<not> shouldCancel (processor s)" "list_all (\<lambda>job. \<not> cancelCalled (snd job)) jobs"
  shows "completed (current (snd (processLoop quiet options n i jobs s))) =
           completed (current s) + (length jobs - failed jobs) \<and>
         length (errors (current (snd (processLoop quiet options n i jobs s)))) =
           length (errors (current s)) + failed jobs \<and>
         total (current (snd (processLoop quiet options n i jobs s))) = total (current s) \<and>
         length (emitted (snd (processLoop quiet options n i jobs s))) =
           length (emitted s) + length jobs + tick_count jobs"
  using assms
proof (induction jobs arbitrary: i s)
  case Nil
  then show ?case by (simp add: failed_def tick_count_def)
next
  case (Cons job jobs)
  have nc: "\<not> shouldCancel (processor (snd (processOne quiet options n i job s)))"
    using Cons.prems by (simp add: processOne_facts)
  have rest: "list_all (\<lambda>job. \<not> cancelCalled (snd job)) jobs"
    using Cons.prems by simp
  note ih = Cons.IH [OF nc rest, of "i + 1"]
  have le: "failed jobs \<le> length jobs" by (rule failed_le)
  show ?case
    using Cons.prems(1) ih le
    by (simp add: processLoop_quiet_step processOne_facts failed_Cons tick_count_def
        del: processLoop.simps(2))
qed

lemma processLoop_cancelled:
  "shouldCancel (processor s) \<Longrightarrow> processLoop cb options n i jobs s = (None, s)"
  by (cases jobs) simp_all

lemma processLoop_overall:
  "\<not> shouldCancel (processor s) \<Longrightarrow>
   map overallProgress (emitted (snd (processLoop quiet options n i jobs s))) =
     map overallProgress (emitted s) @ expected_overall n i (take (rounds jobs) jobs)"
proof (induction jobs arbitrary: i s)
  case Nil
  then show ?case by simp
next
  case (Cons job jobs)
  let ?s' = "snd (processOne quiet options n i job s)"
  have step: "processLoop quiet options n i (job # jobs) s =
                processLoop quiet options n (i + 1) jobs ?s'"
    using Cons.prems by (simp add: processLoop_quiet_step del: processLoop.simps(2))
  have flag: "shouldCancel (processor ?s') = cancelCalled (snd job)"
    using Cons.prems by (simp add: processOne_facts)
  show ?case
  proof (cases "cancelCalled (snd job)")
    case True
    with flag have "processLoop quiet options n (i + 1) jobs ?s' = (None, ?s')"
      by (simp add: processLoop_cancelled)
    with True show ?thesis
      by (simp add: step processOne_overall del: processLoop.simps(2))
  next
    case False
    with flag have "\<not> shouldCancel (processor ?s')" by simp
    from Cons.IH [OF this, of "i + 1"] False show ?thesis
      by (simp add: step processOne_overall del: processLoop.simps(2))
  qed
qed

lemma processFiles_quiet:
  assumes "\<not> isProcessing bp"
  shows "processFiles quiet bp jobs options =
     (let s1 = snd (processLoop quiet options (length jobs) 0 jobs
                 \<lparr>processor = bp\<lparr>isProcessing := True, shouldCancel := False\<rparr>,
                  current = \<lparr>fileIndex = 0, fileName = [], fileProgress = 0,
                             overallProgress = 0, completed = 0, total = length jobs,
                             errors = []\<rparr>,
                  emitted = []\<rparr>)
      in (Inr (), (processor s1)\<lparr>isProcessing := False\<rparr>,
          emitted s1 @ [(current s1)\<lparr>overallProgress := 100\<rparr>]))"
proof -
  define s0 where "s0 =
    \<lparr>processor = bp\<lparr>isProcessing := True, shouldCancel := False\<rparr>,
     current = \<lparr>fileIndex = 0, fileName = [], fileProgress = 0, overallProgress = 0,
                completed = 0, total = length jobs, errors = []\<rparr>,
     emitted = []\<rparr>"
  obtain t s1 where eq: "processLoop quiet options (length jobs) 0 jobs s0 = (t, s1)"
    by (cases "processLoop quiet options (length jobs) 0 jobs s0")
  from processLoop_quiet_returns [of options "length jobs" 0 jobs s0] eq
  have t: "t = None" by simp
  show ?thesis
    using assms eq t
    by (simp add: processFiles_def Let_def onProgress_def quiet_def s0_def [symmetric])
qed

text \<open>
  Claim C7 (batch partial failure). For a batch of \<open>K\<close> files of which \<open>M\<close> fail, with
  no call of \<open>cancel()\<close> during the run and a progress callback that returns normally:
  the call resolves; every file got its opening snapshot and all snapshots of its engine
  run, and the closing snapshot followed, so the loop went through all \<open>K\<close> files; the
  closing snapshot counts \<open>K - M\<close> completed files and lists \<open>M\<close> errors.
\<close>

theorem batch_partial_failure:
  assumes "\<not> isProcessing bp" and "list_all (\<lambda>job. \<not> cancelCalled (snd job)) jobs"
  shows "\<exists>bp' out. processFiles quiet bp jobs options = (Inr (), bp', out) \<and>
           length out = length jobs + tick_count jobs + 1 \<and>
           completed (last out) = length jobs - failed jobs \<and>
           length (errors (last out)) = failed jobs \<and>
           total (last out) = length jobs"
proof -
  let ?s0 = "\<lparr>processor = bp\<lparr>isProcessing := True, shouldCancel := False\<rparr>,
              current = \<lparr>fileIndex = 0, fileName = [], fileProgress = 0, overallProgress = 0,
                         completed = 0, total = length jobs, errors = []\<rparr>,
              emitted = []\<rparr>"
  have "\<not> shouldCancel (processor ?s0)" by simp
  from processLoop_facts [OF this assms(2), of options "length jobs" 0]
  show ?thesis
    by (simp add: processFiles_quiet [OF assms(1)] Let_def)
qed

theorem batch_partial_failure_witness:
  "\<not> isProcessing idle_processor \<and> list_all (\<lambda>job. \<not> cancelCalled (snd job)) sample_jobs \<and>
   length sample_jobs = 2 \<and> failed sample_jobs = 1 \<and>
   completed (last (snd (snd (processFiles quiet idle_processor sample_jobs sample_options)))) = 1 \<and>
   length (errors (last (snd (snd (processFiles quiet idle_processor sample_jobs sample_options)))))
     = 1"
  using batch_partial_failure [of idle_processor sample_jobs sample_options]
  by (auto simp: idle_processor_def sample_jobs_def failing_run_def half_run_def failed_def)

text \<open>
  Claim C8 (progress aggregation), as stated: each snapshot reports
  \<open>(completedFiles + currentFileFraction) / totalFiles\<close>. In a batch of two files whose
  first file fails, the snapshot taken when the second file is half done reports 75,
  where the stated formula gives one quarter.
\<close>

theorem progress_formula_counterexample:
  "overallProgress (snd (snd (processFiles quiet idle_processor sample_jobs sample_options)) ! 2)
     = 75 \<and>
   spec_overallFraction (snd (snd (processFiles quiet idle_processor sample_jobs sample_options)) ! 2)
     = 1 / 4"
  by (simp add: processFiles_def Let_def idle_processor_def sample_jobs_def failing_run_def
      half_run_def processOne_def onProgress_def fileTick_def spec_overallFraction_def
      sample_file_def sample_options_def operation_name_def quiet_def)

text \<open>
  Claim C8 as amended: the opening snapshot of the file at position \<open>i\<close> reports the
  percentage \<open>(i / totalFiles) * 100\<close>; when the engine that was started for the file at
  position \<open>j\<close> reports a fraction \<open>f\<close>, the snapshot made for it reports
  \<open>((j + f) / totalFiles) * 100\<close>, where \<open>j\<close> counts the files before that one, failed
  ones included; the closing snapshot reports 100. The snapshots of a run, in order,
  report exactly these percentages, for as many files as the loop goes through.
\<close>

theorem progress_formula:
  assumes "\<not> isProcessing bp"
  shows "\<exists>bp' out. processFiles quiet bp jobs options = (Inr (), bp', out) \<and>
           map overallProgress out =
             expected_overall (length jobs) 0 (take (rounds jobs) jobs) @ [100]"
proof -
  let ?s0 = "\<lparr>processor = bp\<lparr>isProcessing := True, shouldCancel := False\<rparr>,
              current = \<lparr>fileIndex = 0, fileName = [], fileProgress = 0, overallProgress = 0,
                         completed = 0, total = length jobs, errors = []\<rparr>,
              emitted = []\<rparr>"
  have "\<not> shouldCancel (processor ?s0)" by simp
  from processLoop_overall [OF this, of options "length jobs" 0 jobs]
  show ?thesis
    by (simp add: processFiles_quiet [OF assms] Let_def)
qed

theorem progress_formula_witness:
  "\<not> isProcessing idle_processor \<and>
   map overallProgress (snd (snd (processFiles quiet idle_processor late_jobs sample_options)))
     = [0, 50, 50, 75, 100]"
proof -
  have h: "\<not> isProcessing idle_processor" by (simp add: idle_processor_def)
  from progress_formula [OF h, of late_jobs sample_options]
  obtain bp' out where
    r: "processFiles quiet idle_processor late_jobs sample_options = (Inr (), bp', out)"
    and o: "map overallProgress out =
              expected_overall (length late_jobs) 0 (take (rounds late_jobs) late_jobs) @ [100]"
    by blast
  have "expected_overall (length late_jobs) 0 (take (rounds late_jobs) late_jobs)
          = [0, 50, 50, 75]"
    by (simp add: late_jobs_def late_run_def failing_run_def)
  with o r h show ?thesis by simp
qed

text \<open>
  Claim C9 (one batch at a time), as stated: after any call of \<open>processFiles\<close> has
  settled, \<open>isCurrentlyProcessing()\<close> is false. A call made while another one is
  running settles with the error of the guard, and the flag is still set.
\<close>

theorem reentrancy_counterexample:
  "fst (processFiles quiet busy_processor sample_jobs sample_options)
     = Inl ''Batch processing is already in progress'' \<and>
   isCurrentlyProcessing (fst (snd (processFiles quiet busy_processor sample_jobs sample_options)))"
  by (simp add: processFiles_def busy_processor_def isCurrentlyProcessing_def)

text \<open>
  Claim C9 as amended: a call made while \<open>isProcessing\<close> is set is rejected with
  \<^verbatim>\<open>Batch processing is already in progress\<close>, changes nothing and reports no
  progress; after a call that got past the guard has settled, resolved or rejected,
  \<open>isCurrentlyProcessing()\<close> is false.
\<close>

theorem processFiles_guard:
  "(isProcessing bp \<longrightarrow>
      processFiles cb bp jobs options =
        (Inl ''Batch processing is already in progress'', bp, [])) \<and>
   (\<not> isProcessing bp \<longrightarrow>
      isCurrentlyProcessing (fst (snd (processFiles cb bp jobs options))) = False)"
  by (simp add: processFiles_def Let_def isCurrentlyProcessing_def
      split: prod.splits option.splits)

theorem processFiles_guard_witness:
  "isProcessing busy_processor \<and>
   processFiles quiet busy_processor sample_jobs sample_options
     = (Inl ''Batch processing is already in progress'', busy_processor, []) \<and>
   \<not> isProcessing idle_processor \<and>
   fst (processFiles (\<lambda>p. Some ''callback failed'') idle_processor sample_jobs sample_options)
     = Inl ''callback failed'' \<and>
   isCurrentlyProcessing
     (fst (snd (processFiles (\<lambda>p. Some ''callback failed'') idle_processor sample_jobs
        sample_options))) = False"
  using processFiles_guard [of busy_processor quiet sample_jobs sample_options]
    processFiles_guard [of idle_processor "\<lambda>p. Some ''callback failed''" sample_jobs
      sample_options]
  by (simp add: busy_processor_def idle_processor_def processFiles_def Let_def sample_jobs_def
      processOne_def onProgress_def)

end
